theory Spec2Isabelle
  imports Main "HOL-Library.Char_ord" "HOL-Library.List_Lexorder"
begin

section \<open>Strings\<close>

text \<open>
  A Python \<open>str\<close> is modelled as a \<open>string\<close>; one \<open>char\<close> stands for one code
  point, so the model covers the code points 0 to 255. \<open>isspace\<close> lists the code points
  of that range that \<open>str.split()\<close> and \<open>str.strip()\<close> treat as whitespace.
\<close>

definition isspace :: "char \<Rightarrow> bool" where
  "isspace c = (c \<in> set [CHR 0x09, CHR 0x0A, CHR 0x0B, CHR 0x0C, CHR 0x0D,
                          CHR 0x1C, CHR 0x1D, CHR 0x1E, CHR 0x1F, CHR 0x20,
                          CHR 0x85, CHR 0xA0])"

text \<open>\<open>s.strip()\<close>\<close>

definition strip :: "string \<Rightarrow> string" where
  "strip s = rev (dropWhile isspace (rev (dropWhile isspace s)))"

text \<open>\<open>s.split()\<close>: the maximal runs of non-whitespace characters, in order.\<close>

function split :: "string \<Rightarrow> string list" where
  "split s =
     (case dropWhile isspace s of
        [] \<Rightarrow> []
      | c # cs \<Rightarrow> takeWhile (\<lambda>x. \<not> isspace x) (c # cs)
                 # split (dropWhile (\<lambda>x. \<not> isspace x) (c # cs)))"
  by pat_completeness auto
termination
proof (relation "measure length")
  show "wf (measure length)" by simp
next
  fix s :: string and c cs
  assume a: "dropWhile isspace s = c # cs"
  have "\<not> isspace c" using a by (metis hd_dropWhile list.sel(1) list.distinct(1))
  then have "length (dropWhile (\<lambda>x. \<not> isspace x) (c # cs)) \<le> length cs"
    by (simp add: length_dropWhile_le)
  moreover have "length (c # cs) \<le> length s"
    using a length_dropWhile_le [of isspace s] by simp
  ultimately show "(dropWhile (\<lambda>x. \<not> isspace x) (c # cs), s) \<in> measure length"
    by simp
qed

declare split.simps [simp del]

text \<open>\<open>s.split("\n")[0]\<close>: the text before the first line feed.\<close>

definition first_line :: "string \<Rightarrow> string" where
  "first_line s = takeWhile (\<lambda>c. c \<noteq> CHR 0x0A) s"

text \<open>\<open>sep.join(xs)\<close>\<close>

fun join :: "string \<Rightarrow> string list \<Rightarrow> string" where
  "join sep [] = []"
| "join sep [x] = x"
| "join sep (x # y # ys) = x @ sep @ join sep (y # ys)"

section \<open>Data model\<close>

datatype group_by = Single string | Several "string list"

record Config =
  include_metadata :: bool
  append_file :: bool
  include_date_in_notes :: bool
  include_chapter_in_notes :: bool
  group_by :: group_by
  color_map :: "string \<rightharpoonup> string"
  join_titles :: bool
  dump_stdout :: bool
  html_parser :: string

record Annotation =
  date :: string
  chapter_a :: string
  color :: string
  text_a :: string
  note_a :: string

text \<open>\<open>d.get(k, default)\<close>\<close>

definition dict_get :: "('k \<rightharpoonup> 'v) \<Rightarrow> 'k \<Rightarrow> 'v \<Rightarrow> 'v" where
  "dict_get d k dflt = (case d k of None \<Rightarrow> dflt | Some v \<Rightarrow> v)"

section \<open>The line formatter\<close>

definition heading_tokens :: "string list" where
  "heading_tokens = [''#'', ''##'', ''###'', ''####'']"

text \<open>
  \<open>_format_annotation\<close> assigns to \<open>a.text\<close>, so the model returns the formatted
  string together with the annotation as the call leaves it.
\<close>

definition format_annotation :: "Config \<Rightarrow> Annotation \<Rightarrow> string \<Rightarrow> string \<times> Annotation" where
  "format_annotation cfg a indent =
     (let prefix = dict_get (color_map cfg) (color a) '''';
          a = (if prefix \<in> set heading_tokens \<and> join_titles cfg
               then a\<lparr>text_a := join '' '' (split (text_a a))\<rparr> else a);
          prefix = (if prefix \<noteq> [] then prefix @ '' '' else prefix);
          fmtd = indent @ ''- '' @ prefix @ text_a a;
          fmtd = (if include_chapter_in_notes cfg
                  then fmtd @ '' (Chapter '' @ [CHR 0x27] @ chapter_a a @ [CHR 0x27] @ '')''
                  else fmtd);
          fmtd = (if include_date_in_notes cfg then fmtd @ ''('' @ date a @ '')'' else fmtd);
          fmtd = (if note_a a \<noteq> []
                  then (let note_icon = dict_get (color_map cfg) ''note'' '''';
                            note_icon = (if note_icon \<noteq> [] then note_icon @ '' '' else note_icon)
                        in fmtd @ [CHR 0x0A] @ indent @ ''    - '' @ note_icon @ note_a a)
                  else fmtd)
      in (fmtd, a))"

section \<open>Annotation objects and attribute lookup\<close>

text \<open>
  Annotations are objects: a list of annotations is a list of references, and the objects
  live in a store, so that the assignment to \<open>a.text\<close> is seen through every reference
  to the same object.
\<close>

type_synonym ref = nat
type_synonym heap = "ref \<Rightarrow> Annotation"

datatype error = IndexError | AttributeError | TypeError

text \<open>
  The value of an attribute is a string or another object. Of an object that is not a
  string the model keeps what \<open>group_and_dump\<close> uses: whether it can be hashed, and
  how \<open>str\<close> renders it; such an object has no order, so \<open><\<close> raises \<open>TypeError\<close>
  when one of its operands is such an object.
\<close>

datatype pyvalue = Str string | Obj bool string

fun is_str :: "pyvalue \<Rightarrow> bool" where
  "is_str (Str s) = True"
| "is_str (Obj can_hash rendering) = False"

fun hashable :: "pyvalue \<Rightarrow> bool" where
  "hashable (Str s) = True"
| "hashable (Obj can_hash rendering) = can_hash"

fun py_str :: "pyvalue \<Rightarrow> string" where
  "py_str (Str s) = s"
| "py_str (Obj can_hash rendering) = rendering"

text \<open>The five fields that the dataclass declares; every one of them holds a string.\<close>

datatype field = Date | Chapter | Color | Text | Note

definition field_of_name :: "string \<Rightarrow> field option" where
  "field_of_name name =
     (if name = ''date'' then Some Date
      else if name = ''chapter'' then Some Chapter
      else if name = ''color'' then Some Color
      else if name = ''text'' then Some Text
      else if name = ''note'' then Some Note
      else None)"

fun field_value :: "Annotation \<Rightarrow> field \<Rightarrow> string" where
  "field_value a Date = date a"
| "field_value a Chapter = chapter_a a"
| "field_value a Color = color a"
| "field_value a Text = text_a a"
| "field_value a Note = note_a a"

text \<open>
  Besides its fields, an annotation has the attributes that it inherits from its class
  and from \<open>object\<close> (\<open>__doc__\<close>, \<open>__class__\<close>, \<open>__dict__\<close> and others). Which
  these are is decided by the Python runtime and not by the source, so the table of the
  inherited attributes is a parameter of the model: it gives, for the name of an inherited
  attribute, its value on an annotation. Every annotation has the same attribute names.
\<close>

type_synonym attributes = "string \<Rightarrow> (Annotation \<Rightarrow> pyvalue) option"

text \<open>
  The attribute of a name, as a function of the annotation: a field, or else an inherited
  attribute. \<open>hasattr(a, name)\<close> tells whether there is one, and \<open>getattr(a, name)\<close>
  raises \<open>AttributeError\<close> when there is none.
\<close>

definition attribute :: "attributes \<Rightarrow> string \<Rightarrow> (Annotation \<Rightarrow> pyvalue) option" where
  "attribute inherited name =
     (case field_of_name name of
        Some f \<Rightarrow> Some (\<lambda>a. Str (field_value a f))
      | None \<Rightarrow> inherited name)"

definition hasattr :: "attributes \<Rightarrow> Annotation \<Rightarrow> string \<Rightarrow> bool" where
  "hasattr inherited a name = (attribute inherited name \<noteq> None)"

definition getattr :: "attributes \<Rightarrow> Annotation \<Rightarrow> string \<Rightarrow> error + pyvalue" where
  "getattr inherited a name =
     (case attribute inherited name of
        None \<Rightarrow> Inl AttributeError
      | Some v \<Rightarrow> Inr (v a))"

section \<open>The grouping renderer\<close>

text \<open>The list comprehension over \<open>_format_annotation\<close>, left to right.\<close>

fun format_all :: "Config \<Rightarrow> ref list \<Rightarrow> string \<Rightarrow> heap \<Rightarrow> string list \<times> heap" where
  "format_all cfg [] indent h = ([], h)"
| "format_all cfg (r # rs) indent h =
     (let (s, a') = format_annotation cfg (h r) indent;
          (ss, h') = format_all cfg rs indent (h(r := a'))
      in (s # ss, h'))"

text \<open>
  \<open>sorted(xs, key=key)\<close> first computes the key of every element, which fails where
  \<open>key\<close> does, and then sorts by the keys: a stable sort in ascending order. In a list
  of two or more elements every element is compared with another one, so the sort raises
  \<open>TypeError\<close> unless all the keys are strings. The result pairs every element with its
  key.
\<close>

fun keys_of :: "('a \<Rightarrow> error + pyvalue) \<Rightarrow> 'a list \<Rightarrow> error + (pyvalue \<times> 'a) list" where
  "keys_of key [] = Inr []"
| "keys_of key (x # xs) =
     (case key x of
        Inl e \<Rightarrow> Inl e
      | Inr v \<Rightarrow> (case keys_of key xs of Inl e \<Rightarrow> Inl e | Inr kvs \<Rightarrow> Inr ((v, x) # kvs)))"

definition py_sorted :: "('a \<Rightarrow> error + pyvalue) \<Rightarrow> 'a list \<Rightarrow> error + (pyvalue \<times> 'a) list" where
  "py_sorted key xs =
     (case keys_of key xs of
        Inl e \<Rightarrow> Inl e
      | Inr kvs \<Rightarrow>
          if 2 \<le> length kvs \<and> \<not> list_all (\<lambda>(v, x). is_str v) kvs then Inl TypeError
          else Inr (sort_key (\<lambda>(v, x). py_str v) kvs))"

text \<open>\<open>itertools.groupby\<close>: one pair for each maximal run of equal keys.\<close>

function groupby :: "('a \<Rightarrow> 'k) \<Rightarrow> 'a list \<Rightarrow> ('k \<times> 'a list) list" where
  "groupby key [] = []"
| "groupby key (x # xs) =
     (key x, x # takeWhile (\<lambda>y. key y = key x) xs)
       # groupby key (dropWhile (\<lambda>y. key y = key x) xs)"
  by pat_completeness auto
termination
  by (relation "measure (\<lambda>(key, xs). length xs)")
     (auto simp: length_dropWhile_le less_Suc_eq_le)

text \<open>
  A dict keeps its keys in the order of their first insertion; assigning to a key that is
  present replaces its value where it stands.
\<close>

fun dict_set :: "('k \<times> 'v) list \<Rightarrow> 'k \<Rightarrow> 'v \<Rightarrow> ('k \<times> 'v) list" where
  "dict_set [] k v = [(k, v)]"
| "dict_set ((k', v') # d) k v =
     (if k' = k then (k', v) # d else (k', v') # dict_set d k v)"

text \<open>
  The loop \<open>groups[k] = list(g)\<close> over the runs of equal keys; a key that cannot be
  hashed raises \<open>TypeError\<close>.
\<close>

fun build_groups ::
  "(pyvalue \<times> (pyvalue \<times> 'a) list) list \<Rightarrow> (pyvalue \<times> 'a list) list
     \<Rightarrow> error + (pyvalue \<times> 'a list) list" where
  "build_groups [] groups = Inr groups"
| "build_groups ((k, g) # rest) groups =
     (if hashable k then build_groups rest (dict_set groups k (map snd g))
      else Inl TypeError)"

text \<open>
  The loop over \<open>groups.items()\<close>; \<open>rec\<close> is the recursive call with the remaining
  group keys.
\<close>

fun dump_groups ::
  "(ref list \<Rightarrow> string \<Rightarrow> heap \<Rightarrow> error + (string list \<times> heap))
     \<Rightarrow> (pyvalue \<times> ref list) list \<Rightarrow> string \<Rightarrow> string list \<Rightarrow> heap
     \<Rightarrow> error + (string list \<times> heap)" where
  "dump_groups rec [] indent lines h = Inr (lines, h)"
| "dump_groups rec ((grp, annotations) # rest) indent lines h =
     (let level = length indent div 4;
          header = replicate (level + 1) (CHR ''#'');
          lines = lines @ [indent @ ''- '' @ header @ '' '' @ py_str grp]
      in case rec annotations (indent @ ''    '') h of
           Inl e \<Rightarrow> Inl e
         | Inr (ls, h') \<Rightarrow> dump_groups rec rest indent (lines @ ls) h')"

primrec group_and_dump ::
  "attributes \<Rightarrow> Config \<Rightarrow> string list \<Rightarrow> ref list \<Rightarrow> string \<Rightarrow> heap
     \<Rightarrow> error + (string list \<times> heap)" where
  "group_and_dump inherited cfg [] annotations indent h =
     Inr (format_all cfg annotations indent h)"
| "group_and_dump inherited cfg (group_key # ks) annotations indent h =
     (case annotations of
        [] \<Rightarrow> Inl IndexError
      | a0 # _ \<Rightarrow>
          if \<not> hasattr inherited (h a0) group_key
          then Inr (format_all cfg annotations indent h)
          else
            (let key = (\<lambda>e. getattr inherited (h e) group_key)
             in case py_sorted key annotations of
                  Inl e \<Rightarrow> Inl e
                | Inr sorted_annotations \<Rightarrow>
                    (case build_groups (groupby fst sorted_annotations) [] of
                       Inl e \<Rightarrow> Inl e
                     | Inr groups \<Rightarrow>
                         dump_groups (group_and_dump inherited cfg ks) groups indent [] h)))"

section \<open>The annotation parser\<close>

text \<open>
  The markup parser is a collaborator. A parsed document is modelled by what the extractor
  reads from it: the text of \<open>soup.h1\<close>, of \<open>soup.h2\<close> and of the element of class
  \<open>citation\<close> (\<open>None\<close> where the element is absent), and the elements of class
  \<open>annotation\<close>, each with the text of its five descendants (\<open>None\<close> where \<open>find\<close>
  finds nothing) and the class list of its selection marker.
\<close>

record annotation_element =
  annotationdate :: "string option"
  annotationchapter :: "string option"
  annotationselectionMarker :: "string list option"
  annotationrepresentativetext :: "string option"
  annotationnote :: "string option"

record soup =
  h1 :: "string option"
  h2 :: "string option"
  citation :: "string option"
  annotation_elements :: "annotation_element list"

text \<open>\<open>imported\<close> holds the timestamp as \<open>str\<close> renders it.\<close>

record MetaData =
  title :: string
  author :: string
  source :: string
  imported :: string

text \<open>The defaults of the dataclass; \<open>now\<close> is the rendered \<open>datetime.now()\<close>.\<close>

definition MetaData_default :: "string \<Rightarrow> MetaData" where
  "MetaData_default now =
     \<lparr>title = ''Untitled'', author = ''Unkown'', source = ''Unspecified'', imported = now\<rparr>"

definition extract_annotation :: "annotation_element \<Rightarrow> error + Annotation" where
  "extract_annotation e =
     (case annotationdate e of None \<Rightarrow> Inl AttributeError | Some d \<Rightarrow>
      case annotationchapter e of None \<Rightarrow> Inl AttributeError | Some c \<Rightarrow>
      case annotationselectionMarker e of None \<Rightarrow> Inl AttributeError | Some cls \<Rightarrow>
      if cls = [] then Inl IndexError else
      case annotationrepresentativetext e of None \<Rightarrow> Inl AttributeError | Some t \<Rightarrow>
      case annotationnote e of None \<Rightarrow> Inl AttributeError | Some n \<Rightarrow>
      Inr \<lparr>date = strip d, chapter_a = strip c, color = last cls,
           text_a = strip t, note_a = strip n\<rparr>)"

definition extract_if_not_none :: "string option \<Rightarrow> string" where
  "extract_if_not_none elem =
     (case elem of Some t \<Rightarrow> strip t | None \<Rightarrow> ''Not specified'')"

fun extract_all :: "annotation_element list \<Rightarrow> error + Annotation list" where
  "extract_all [] = Inr []"
| "extract_all (e # es) =
     (case extract_annotation e of
        Inl err \<Rightarrow> Inl err
      | Inr a \<Rightarrow> (case extract_all es of Inl err \<Rightarrow> Inl err | Inr as \<Rightarrow> Inr (a # as)))"

definition extract_annotations_from_html ::
  "string \<Rightarrow> soup \<Rightarrow> error + (MetaData \<times> Annotation list)" where
  "extract_annotations_from_html now sp =
     (case extract_all (annotation_elements sp) of
        Inl err \<Rightarrow> Inl err
      | Inr result \<Rightarrow>
          (let title = extract_if_not_none (h1 sp);
               author = extract_if_not_none (h2 sp);
               ref = extract_if_not_none (citation sp);
               ref = (if ref \<noteq> ''Not specified'' then strip (first_line ref) else ref)
           in Inr (\<lparr>title = title, author = author, source = ref, imported = now\<rparr>, result)))"

section \<open>The document assembler\<close>

text \<open>The result is \<open>None\<close> where the source returns without a value.\<close>

definition generate_markdown ::
  "attributes \<Rightarrow> Config \<Rightarrow> MetaData \<Rightarrow> ref list \<Rightarrow> heap
     \<Rightarrow> error + (string option \<times> heap)" where
  "generate_markdown inherited cfg metadata annotations h =
     (if annotations = [] then Inr (None, h)
      else
        (let lines = (if include_metadata cfg
                      then [''- title:: '' @ [CHR 0x22] @ title metadata @ [CHR 0x22],
                            ''  author:: '' @ [CHR 0x22] @ author metadata @ [CHR 0x22],
                            ''  source:: '' @ [CHR 0x22] @ source metadata @ [CHR 0x22],
                            ''  imported:: '' @ imported metadata]
                      else []);
             group_keys = (case group_by cfg of Single k \<Rightarrow> [k] | Several ks \<Rightarrow> ks)
         in case group_and_dump inherited cfg group_keys annotations [] h of
              Inl e \<Rightarrow> Inl e
            | Inr (ls, h') \<Rightarrow> Inr (Some (join [CHR 0x0A] (lines @ ls)), h')))"

section \<open>Writing the documents\<close>

text \<open>
  The output sinks: the files by name, and the lines printed to standard output.
\<close>

record world =
  files :: "string \<rightharpoonup> string"
  stdout :: "string list"

definition print :: "string \<Rightarrow> world \<Rightarrow> world" where
  "print s w = w\<lparr>stdout := stdout w @ [s]\<rparr>"

text \<open>
  \<open>dump_markdown\<close>; \<open>sanitize\<close> is the file-name sanitizer of the library the source
  imports. \<open>open\<close> creates the file, and empties it in mode \<open>w\<close>; what was written
  before an exception stays in the file, which the \<open>with\<close> block closes. The result
  pairs the exception raised, if any, with the sinks as the call leaves them.
\<close>

definition dump_markdown ::
  "Config \<Rightarrow> (string \<Rightarrow> string) \<Rightarrow> string option \<Rightarrow> string \<Rightarrow> world \<Rightarrow> error option \<times> world" where
  "dump_markdown cfg sanitize md fname w =
     (if dump_stdout cfg
      then (None, print (case md of None \<Rightarrow> ''None'' | Some s \<Rightarrow> s) w)
      else
        (let fname = sanitize fname;
             content = (if append_file cfg
                        then (case files w fname of None \<Rightarrow> [] | Some old \<Rightarrow> old)
                        else []);
             content = (if append_file cfg then content @ [CHR 0x0A] else content)
         in case md of
              None \<Rightarrow> (Some TypeError, w\<lparr>files := (files w)(fname \<mapsto> content)\<rparr>)
            | Some s \<Rightarrow>
                (None, print (''Annotations written in '' @ fname)
                         (w\<lparr>files := (files w)(fname \<mapsto> content @ s)\<rparr>))))"

text \<open>The parser makes one new object for each annotation of a message.\<close>

definition heap_of :: "Annotation list \<Rightarrow> heap" where
  "heap_of as = (\<lambda>r. if r < length as then as ! r else undefined)"

text \<open>
  The loop of \<open>process_emails\<close> over the messages found, each given by its parsed
  document. An exception ends the loop.
\<close>

fun process_messages ::
  "attributes \<Rightarrow> Config \<Rightarrow> (string \<Rightarrow> string) \<Rightarrow> string \<Rightarrow> soup list \<Rightarrow> world
     \<Rightarrow> error option \<times> world" where
  "process_messages inherited cfg sanitize now [] w = (None, w)"
| "process_messages inherited cfg sanitize now (html # rest) w =
     (case extract_annotations_from_html now html of
        Inl e \<Rightarrow> (Some e, w)
      | Inr (metadata, annotations) \<Rightarrow>
          (case generate_markdown inherited cfg metadata [0..<length annotations]
                  (heap_of annotations) of
             Inl e \<Rightarrow> (Some e, w)
           | Inr (md, _) \<Rightarrow>
               (let fname = title metadata @ ''-'' @ author metadata @ ''-Notes.md''
                in case dump_markdown cfg sanitize md fname w of
                     (Some e, w') \<Rightarrow> (Some e, w')
                   | (None, w') \<Rightarrow> process_messages inherited cfg sanitize now rest w')))"

text \<open>
  \<open>process_emails\<close> after the mailbox search; \<open>subject_repr\<close> is the subject as
  \<open>repr\<close> renders it.
\<close>

definition process_emails ::
  "attributes \<Rightarrow> Config \<Rightarrow> (string \<Rightarrow> string) \<Rightarrow> string \<Rightarrow> string \<Rightarrow> soup list \<Rightarrow> world
     \<Rightarrow> error option \<times> world" where
  "process_emails inherited cfg sanitize now subject_repr id_list w =
     (if id_list = []
      then (None,
            print ''You may need to change that string in the configuration file''
              (print (''You don'' @ [CHR 0x27] @ ''t have any email in your inbox whose subject contains ''
                        @ subject_repr) w))
      else process_messages inherited cfg sanitize now id_list w)"

section \<open>Notions used in the statements\<close>

text \<open>A word: a non-empty string without whitespace.\<close>

definition word :: "string \<Rightarrow> bool" where
  "word w = (w \<noteq> [] \<and> (\<forall>c \<in> set w. \<not> isspace c))"

text \<open>The marker of an annotation and the test that decides the whitespace collapse.\<close>

definition marker :: "Config \<Rightarrow> Annotation \<Rightarrow> string" where
  "marker cfg a = dict_get (color_map cfg) (color a) []"

definition joins_title :: "Config \<Rightarrow> Annotation \<Rightarrow> bool" where
  "joins_title cfg a = (marker cfg a \<in> set heading_tokens \<and> join_titles cfg)"

text \<open>The parts of a formatted annotation, as the source puts them together.\<close>

definition marker_part :: "Config \<Rightarrow> Annotation \<Rightarrow> string" where
  "marker_part cfg a = (if marker cfg a = [] then [] else marker cfg a @ '' '')"

definition decorations :: "Config \<Rightarrow> Annotation \<Rightarrow> string" where
  "decorations cfg a =
     (if include_chapter_in_notes cfg
      then '' (Chapter '' @ [CHR 0x27] @ chapter_a a @ [CHR 0x27] @ '')'' else [])
     @ (if include_date_in_notes cfg then ''('' @ date a @ '')'' else [])"

definition note_icon_part :: "Config \<Rightarrow> string" where
  "note_icon_part cfg =
     (case color_map cfg ''note'' of
        None \<Rightarrow> []
      | Some icon \<Rightarrow> if icon = [] then [] else icon @ '' '')"

definition note_line :: "Config \<Rightarrow> Annotation \<Rightarrow> string \<Rightarrow> string" where
  "note_line cfg a indent = indent @ ''    '' @ ''- '' @ note_icon_part cfg @ note_a a"

definition note_part :: "Config \<Rightarrow> Annotation \<Rightarrow> string \<Rightarrow> string" where
  "note_part cfg a indent =
     (if note_a a = [] then [] else [CHR 0x0A] @ note_line cfg a indent)"

definition emitted_text :: "Config \<Rightarrow> Annotation \<Rightarrow> string" where
  "emitted_text cfg a =
     (if joins_title cfg a then join '' '' (split (text_a a)) else text_a a)"

definition first_block :: "Config \<Rightarrow> Annotation \<Rightarrow> string \<Rightarrow> string" where
  "first_block cfg a indent =
     indent @ ''- '' @ marker_part cfg a @ emitted_text cfg a @ decorations cfg a"

text \<open>
  A string in which every whitespace character is a single space between two
  non-whitespace characters.
\<close>

fun single_spaced :: "string \<Rightarrow> bool" where
  "single_spaced [] = True"
| "single_spaced [c] = (\<not> isspace c)"
| "single_spaced (c # d # s) =
     (\<not> isspace c \<and>
      (if isspace d then d = CHR '' '' \<and> s \<noteq> [] \<and> single_spaced s
       else single_spaced (d # s)))"

text \<open>The lines of a string: \<open>s.split("\n")\<close>.\<close>

fun split_lines :: "string \<Rightarrow> string list" where
  "split_lines [] = [[]]"
| "split_lines (c # s) =
     (if c = CHR 0x0A then [] # split_lines s
      else (case split_lines s of [] \<Rightarrow> [[c]] | l # ls \<Rightarrow> (c # l) # ls))"












section \<open>Concrete inputs\<close>

text \<open>Configurations: the defaults with an empty color map, and variants of it.\<close>

definition cfg_plain :: Config where
  "cfg_plain =
     \<lparr>include_metadata = True, append_file = False, include_date_in_notes = False,
      include_chapter_in_notes = False, group_by = Single ''all'', color_map = Map.empty,
      join_titles = True, dump_stdout = False, html_parser = ''html.parser''\<rparr>"

definition cfg_heading :: Config where
  "cfg_heading = cfg_plain\<lparr>color_map := [''yellow'' \<mapsto> ''##'', ''note'' \<mapsto> ''N'']\<rparr>"

definition cfg_chapter :: Config where
  "cfg_chapter = cfg_plain\<lparr>include_chapter_in_notes := True\<rparr>"

definition cfg_empty_icon :: Config where
  "cfg_empty_icon = cfg_plain\<lparr>color_map := [''note'' \<mapsto> []]\<rparr>"

text \<open>Annotations, and stores holding them.\<close>

definition ann_ex :: Annotation where
  "ann_ex =
     \<lparr>date = ''May 1'', chapter_a = ''One'', color = ''yellow'',
      text_a = ''The  quick'' @ [CHR 0x0A] @ ''brown fox'', note_a = []\<rparr>"

definition ann_note :: Annotation where
  "ann_note =
     \<lparr>date = ''May 1'', chapter_a = ''One'', color = ''blue'',
      text_a = ''brown fox'', note_a = ''seen''\<rparr>"



text \<open>
  Two of the attributes that an annotation inherits: the documentation string that
  \<open>dataclass\<close> generates, and the class of the object.
\<close>

definition inherited_ex :: attributes where
  "inherited_ex =
     [''__doc__'' \<mapsto>
        (\<lambda>a. Str ''Annotation(date: str, chapter: str, color: str, text: str, note: str)''),
      ''__class__'' \<mapsto>
        (\<lambda>a. Obj True (''<class '' @ [CHR 0x27] @ ''__main__.Annotation'' @ [CHR 0x27] @ ''>''))]"

text \<open>A document without heading, citation or annotation, and one with an annotation.\<close>

definition soup_bare :: soup where
  "soup_bare = \<lparr>h1 = None, h2 = None, citation = None, annotation_elements = []\<rparr>"

definition soup_one :: soup where
  "soup_one =
     \<lparr>h1 = Some ''Title'', h2 = Some ''Author'', citation = Some ''Cited'',
      annotation_elements =
        [\<lparr>annotationdate = Some ''May 1'', annotationchapter = Some ''One'',
          annotationselectionMarker = Some [''annotationselectionMarker'', ''yellow''],
          annotationrepresentativetext = Some ''brown fox'', annotationnote = Some []\<rparr>]\<rparr>"

definition world_empty :: world where
  "world_empty = \<lparr>files = Map.empty, stdout = []\<rparr>"

section \<open>Splitting and joining\<close>

lemma isspace_space: "isspace (CHR '' '')"
  by (simp add: isspace_def)

lemma split_Nil: "split [] = []"
  by (simp add: split.simps)

lemma split_space_Cons: "isspace c \<Longrightarrow> split (c # s) = split s"
  by (subst split.simps, subst (2) split.simps) simp

lemma split_word_append:
  assumes "word w" and "s = [] \<or> isspace (hd s)"
  shows "split (w @ s) = w # split s"
proof -
  from assms(1) obtain c cs where w: "w = c # cs" and nc: "\<not> isspace c"
    and ncs: "\<forall>x \<in> set cs. \<not> isspace x"
    by (cases w) (auto simp: word_def)
  have tw: "takeWhile (\<lambda>x. \<not> isspace x) (cs @ s) = cs"
    using assms(2) ncs by (cases s) auto
  have dw: "dropWhile (\<lambda>x. \<not> isspace x) (cs @ s) = s"
    using assms(2) ncs by (cases s) auto
  have "split (c # cs @ s) = (c # cs) # split s"
    using nc tw dw by (subst split.simps) simp
  then show ?thesis by (simp add: w)
qed

lemma split_words: "w \<in> set (split s) \<Longrightarrow> word w"
proof (induction s arbitrary: w rule: split.induct)
  case (1 s)
  show ?case
  proof (cases "dropWhile isspace s")
    case Nil
    with "1.prems" show ?thesis by (simp add: split.simps)
  next
    case (Cons c cs)
    have nc: "\<not> isspace c" using Cons by (metis hd_dropWhile list.sel(1) list.distinct(1))
    from "1.prems" Cons have
      "w = takeWhile (\<lambda>x. \<not> isspace x) (c # cs) \<or> w \<in> set (split (dropWhile (\<lambda>x. \<not> isspace x) (c # cs)))"
      by (subst (asm) split.simps) (simp del: takeWhile.simps dropWhile.simps)
    then show ?thesis
    proof
      assume "w = takeWhile (\<lambda>x. \<not> isspace x) (c # cs)"
      then show ?thesis using nc by (auto simp: word_def dest: set_takeWhileD)
    next
      assume "w \<in> set (split (dropWhile (\<lambda>x. \<not> isspace x) (c # cs)))"
      then show ?thesis using "1.IH" Cons by blast
    qed
  qed
qed

lemma split_join: "\<forall>w \<in> set ws. word w \<Longrightarrow> split (join '' '' ws) = ws"
proof (induction "'' ''" ws rule: join.induct)
  case 1
  then show ?case by (simp add: split_Nil)
next
  case (2 x)
  then show ?case using split_word_append [of x "[]"] by (simp add: split_Nil)
next
  case (3 x y ys)
  have "split (x @ '' '' @ join '' '' (y # ys)) = x # split ('' '' @ join '' '' (y # ys))"
    using 3 by (intro split_word_append) (auto simp: isspace_space)
  also have "split ('' '' @ join '' '' (y # ys)) = split (join '' '' (y # ys))"
    by (simp add: split_space_Cons isspace_space)
  finally show ?case using 3 by simp
qed

lemma collapse_idem: "join '' '' (split (join '' '' (split s))) = join '' '' (split s)"
  by (simp add: split_join split_words)

lemma single_spaced_word: "word w \<Longrightarrow> single_spaced w"
proof (induction w rule: single_spaced.induct)
  case 1 then show ?case by (simp add: word_def)
next
  case (2 c) then show ?case by (simp add: word_def)
next
  case (3 c d s) then show ?case by (simp add: word_def)
qed

lemma single_spaced_word_append:
  "word w \<Longrightarrow> single_spaced s \<Longrightarrow> s \<noteq> [] \<Longrightarrow> single_spaced (w @ CHR '' '' # s)"
proof (induction w)
  case Nil then show ?case by (simp add: word_def)
next
  case (Cons c w)
  show ?case
  proof (cases w)
    case Nil
    then show ?thesis using Cons.prems by (simp add: word_def isspace_space)
  next
    case (Cons d w')
    then have "word w" using Cons.prems(1) by (simp add: word_def)
    then have "single_spaced (w @ CHR '' '' # s)" using Cons.IH Cons.prems by simp
    moreover have "\<not> isspace c" "\<not> isspace d" using Cons.prems(1) Cons by (simp_all add: word_def)
    ultimately show ?thesis using Cons by simp
  qed
qed

lemma join_words_nonempty: "ws \<noteq> [] \<Longrightarrow> \<forall>w \<in> set ws. word w \<Longrightarrow> join sep ws \<noteq> []"
  by (induction sep ws rule: join.induct) (auto simp: word_def)

lemma single_spaced_join: "\<forall>w \<in> set ws. word w \<Longrightarrow> single_spaced (join '' '' ws)"
proof (induction "'' ''" ws rule: join.induct)
  case 1 then show ?case by simp
next
  case (2 x) then show ?case by (simp add: single_spaced_word)
next
  case (3 x y ys)
  have "join '' '' (y # ys) \<noteq> []" using 3(2) by (intro join_words_nonempty) auto
  then show ?case using 3 single_spaced_word_append [of x "join '' '' (y # ys)"] by simp
qed

lemma collapse_single_spaced: "single_spaced (join '' '' (split s))"
  by (simp add: single_spaced_join split_words)

lemma collapse_split: "split (join '' '' (split s)) = split s"
  by (simp add: split_join split_words)

lemma split_lines_no_LF: "CHR 0x0A \<notin> set s \<Longrightarrow> split_lines s = [s]"
  by (induction s) auto

lemma split_lines_append_LF:
  "CHR 0x0A \<notin> set s \<Longrightarrow> split_lines (s @ CHR 0x0A # t) = s # split_lines t"
  by (induction s) auto

section \<open>The line formatter: proofs\<close>

lemma format_annotation_snd:
  "snd (format_annotation cfg a indent) =
     (if joins_title cfg a then a\<lparr>text_a := join '' '' (split (text_a a))\<rparr> else a)"
  by (simp add: format_annotation_def joins_title_def marker_def Let_def)

lemma marker_collapsed [simp]:
  "marker cfg (a\<lparr>text_a := t\<rparr>) = marker cfg a"
  by (simp add: marker_def)

lemma joins_title_collapsed [simp]:
  "joins_title cfg (a\<lparr>text_a := t\<rparr>) = joins_title cfg a"
  by (simp add: joins_title_def)

lemma format_annotation_fst:
  "fst (format_annotation cfg a indent) =
     indent @ ''- '' @ marker_part cfg a @ text_a (snd (format_annotation cfg a indent))
       @ decorations cfg a @ note_part cfg a indent"
  by (simp add: format_annotation_def marker_part_def marker_def decorations_def
      note_part_def note_line_def note_icon_part_def dict_get_def Let_def split: option.splits)

lemma format_annotation_blocks:
  "fst (format_annotation cfg a indent) = first_block cfg a indent @ note_part cfg a indent"
  by (simp add: format_annotation_fst format_annotation_snd first_block_def emitted_text_def)

text \<open>
  C10: a second call of \<open>_format_annotation\<close> on the same annotation object, with the
  same configuration and indent, returns the string of the first call and leaves the
  object as the first call left it: collapsing the whitespace of a collapsed text changes
  nothing.
\<close>

theorem format_annotation_twice:
  "(let (s1, a1) = format_annotation cfg a indent;
        (s2, a2) = format_annotation cfg a1 indent
    in s2 = s1 \<and> a2 = a1)"
  by (simp add: format_annotation_def Let_def collapse_idem)

text \<open>
  C8: when the color of an annotation maps to one of the heading tokens \<open>#\<close>,
  \<open>##\<close>, \<open>###\<close>, \<open>####\<close> and \<open>join_titles\<close> is on, \<open>_format_annotation\<close>
  stores in the text field the words of the text joined by single spaces, and emits that:
  the stored text has the same words, and every whitespace character left in it is a single
  space between two words. Otherwise the annotation is left as it is and its text is
  emitted unchanged.
\<close>

theorem format_annotation_collapse:
  "(joins_title cfg a \<longrightarrow>
      snd (format_annotation cfg a indent) = a\<lparr>text_a := join '' '' (split (text_a a))\<rparr>
      \<and> single_spaced (text_a (snd (format_annotation cfg a indent)))
      \<and> split (text_a (snd (format_annotation cfg a indent))) = split (text_a a)
      \<and> fst (format_annotation cfg a indent) =
          indent @ ''- '' @ marker cfg a @ '' '' @ join '' '' (split (text_a a))
            @ decorations cfg a @ note_part cfg a indent)
   \<and> (\<not> joins_title cfg a \<longrightarrow>
      snd (format_annotation cfg a indent) = a
      \<and> fst (format_annotation cfg a indent) =
          indent @ ''- '' @ marker_part cfg a @ text_a a
            @ decorations cfg a @ note_part cfg a indent)"
proof -
  have m: "joins_title cfg a \<Longrightarrow> marker_part cfg a = marker cfg a @ '' ''"
    by (auto simp: joins_title_def marker_part_def heading_tokens_def)
  show ?thesis
    by (simp add: format_annotation_fst format_annotation_snd collapse_single_spaced
        collapse_split m)
qed

theorem format_annotation_collapse_witness:
  "joins_title cfg_heading ann_ex
   \<and> snd (format_annotation cfg_heading ann_ex ''    '') = ann_ex\<lparr>text_a := ''The quick brown fox''\<rparr>
   \<and> single_spaced (text_a (snd (format_annotation cfg_heading ann_ex ''    '')))
   \<and> fst (format_annotation cfg_heading ann_ex ''    '') = ''    - ## The quick brown fox''
   \<and> \<not> joins_title cfg_plain ann_ex
   \<and> snd (format_annotation cfg_plain ann_ex ''    '') = ann_ex
   \<and> fst (format_annotation cfg_plain ann_ex ''    '') =
        ''    - The  quick'' @ [CHR 0x0A] @ ''brown fox''"
proof -
  have j: "joins_title cfg_heading ann_ex"
    by (simp add: joins_title_def marker_def dict_get_def cfg_heading_def cfg_plain_def
        ann_ex_def heading_tokens_def)
  have n: "\<not> joins_title cfg_plain ann_ex"
    by (simp add: joins_title_def marker_def dict_get_def cfg_plain_def ann_ex_def
        heading_tokens_def)
  have w: "join '' '' (split (text_a ann_ex)) = ''The quick brown fox''"
    by code_simp
  have m: "marker cfg_heading ann_ex = ''##''" "marker_part cfg_plain ann_ex = []"
    by (simp_all add: marker_part_def marker_def dict_get_def cfg_heading_def cfg_plain_def ann_ex_def)
  have d: "decorations cfg_heading ann_ex = []" "note_part cfg_heading ann_ex ''    '' = []"
    "decorations cfg_plain ann_ex = []" "note_part cfg_plain ann_ex ''    '' = []"
    by (simp_all add: decorations_def note_part_def cfg_heading_def cfg_plain_def ann_ex_def)
  have t: "text_a ann_ex = ''The  quick'' @ [CHR 0x0A] @ ''brown fox''"
    by (simp add: ann_ex_def)
  from format_annotation_collapse [of cfg_heading ann_ex "''    ''"] j
  have h1: "snd (format_annotation cfg_heading ann_ex ''    '') =
              ann_ex\<lparr>text_a := join '' '' (split (text_a ann_ex))\<rparr>"
    and h2: "single_spaced (text_a (snd (format_annotation cfg_heading ann_ex ''    '')))"
    and h3: "fst (format_annotation cfg_heading ann_ex ''    '') =
              ''    '' @ ''- '' @ marker cfg_heading ann_ex @ '' '' @ join '' '' (split (text_a ann_ex))
                @ decorations cfg_heading ann_ex @ note_part cfg_heading ann_ex ''    ''"
    by blast+
  from format_annotation_collapse [of cfg_plain ann_ex "''    ''"] n
  have p1: "snd (format_annotation cfg_plain ann_ex ''    '') = ann_ex"
    and p2: "fst (format_annotation cfg_plain ann_ex ''    '') =
              ''    '' @ ''- '' @ marker_part cfg_plain ann_ex @ text_a ann_ex
                @ decorations cfg_plain ann_ex @ note_part cfg_plain ann_ex ''    ''"
    by blast+
  have "fst (format_annotation cfg_heading ann_ex ''    '') = ''    - ## The quick brown fox''"
    unfolding h3 w m d by simp
  moreover have "fst (format_annotation cfg_plain ann_ex ''    '') =
        ''    - The  quick'' @ [CHR 0x0A] @ ''brown fox''"
    unfolding p2 m d t by simp
  moreover have "snd (format_annotation cfg_heading ann_ex ''    '') = ann_ex\<lparr>text_a := ''The quick brown fox''\<rparr>"
    unfolding h1 w by simp
  ultimately show ?thesis using j n h2 p1 by blast
qed

text \<open>
  C7 (amended): with an empty note the result is the first block alone, and with a
  non-empty note it is the first block, a line feed and the note line: the indent, four
  more spaces, \<open>- \<close>, the note icon followed by a single space when the color map has a
  non-empty value under \<open>note\<close>, and the note. These are exactly one line and exactly two
  lines when the first block and the note line contain no line feed.
\<close>

theorem format_annotation_lines:
  "(note_a a = [] \<longrightarrow>
      fst (format_annotation cfg a indent) = first_block cfg a indent
      \<and> (CHR 0x0A \<notin> set (first_block cfg a indent) \<longrightarrow>
           split_lines (fst (format_annotation cfg a indent)) = [first_block cfg a indent]))
   \<and> (note_a a \<noteq> [] \<longrightarrow>
      fst (format_annotation cfg a indent) =
        first_block cfg a indent @ [CHR 0x0A] @ indent @ ''    '' @ ''- '' @ note_icon_part cfg @ note_a a
      \<and> (CHR 0x0A \<notin> set (first_block cfg a indent) \<and> CHR 0x0A \<notin> set (note_line cfg a indent) \<longrightarrow>
           split_lines (fst (format_annotation cfg a indent)) =
             [first_block cfg a indent, indent @ ''    '' @ ''- '' @ note_icon_part cfg @ note_a a]))"
  by (simp add: format_annotation_blocks note_part_def note_line_def split_lines_no_LF
      split_lines_append_LF)

theorem format_annotation_lines_witness:
  "note_a ann_ex = []
   \<and> split_lines (fst (format_annotation cfg_heading ann_ex ''    '')) = [''    - ## The quick brown fox'']
   \<and> note_a ann_note \<noteq> []
   \<and> split_lines (fst (format_annotation cfg_heading ann_note ''    '')) =
       [''    - brown fox'', ''        - N seen'']
   \<and> split_lines (fst (format_annotation cfg_empty_icon ann_note ''    '')) =
       [''    - brown fox'', ''        - seen'']"
proof -
  have n: "note_a ann_ex = []" and n': "note_a ann_note \<noteq> []"
    by (simp_all add: ann_ex_def ann_note_def)
  have w: "join '' '' (split (text_a ann_ex)) = ''The quick brown fox''"
    by code_simp
  have j: "joins_title cfg_heading ann_ex"
    by (simp add: joins_title_def marker_def dict_get_def cfg_heading_def cfg_plain_def
        ann_ex_def heading_tokens_def)
  have m: "marker_part cfg_heading ann_ex = ''## ''" "decorations cfg_heading ann_ex = []"
    by (simp_all add: marker_part_def marker_def decorations_def dict_get_def cfg_heading_def
        cfg_plain_def ann_ex_def)
  have b1: "first_block cfg_heading ann_ex ''    '' = ''    - ## The quick brown fox''"
    unfolding first_block_def emitted_text_def m w using j by simp
  have b2: "first_block cfg_heading ann_note ''    '' = ''    - brown fox''"
    and b3: "first_block cfg_empty_icon ann_note ''    '' = ''    - brown fox''"
    by (simp_all add: first_block_def marker_part_def marker_def emitted_text_def joins_title_def
        decorations_def dict_get_def cfg_heading_def cfg_empty_icon_def cfg_plain_def
        heading_tokens_def ann_note_def)
  have i: "note_icon_part cfg_heading = ''N ''" and i': "note_icon_part cfg_empty_icon = []"
    by (simp_all add: note_icon_part_def cfg_heading_def cfg_empty_icon_def cfg_plain_def)
  have a: "note_a ann_note = ''seen''" by (simp add: ann_note_def)
  have l: "note_line cfg_heading ann_note ''    '' = ''        - N seen''"
    and l': "note_line cfg_empty_icon ann_note ''    '' = ''        - seen''"
    unfolding note_line_def i i' a by simp_all
  have f1: "CHR 0x0A \<notin> set (first_block cfg_heading ann_ex ''    '')"
    unfolding b1 by simp
  have f2: "CHR 0x0A \<notin> set (first_block cfg_heading ann_note ''    '')
            \<and> CHR 0x0A \<notin> set (note_line cfg_heading ann_note ''    '')"
    unfolding b2 l by simp
  have f3: "CHR 0x0A \<notin> set (first_block cfg_empty_icon ann_note ''    '')
            \<and> CHR 0x0A \<notin> set (note_line cfg_empty_icon ann_note ''    '')"
    unfolding b3 l' by simp
  from format_annotation_lines [of ann_ex cfg_heading "''    ''"] n f1
  have h1: "split_lines (fst (format_annotation cfg_heading ann_ex ''    '')) =
              [first_block cfg_heading ann_ex ''    '']"
    by blast
  from format_annotation_lines [of ann_note cfg_heading "''    ''"] n' f2
  have h2: "split_lines (fst (format_annotation cfg_heading ann_note ''    '')) =
              [first_block cfg_heading ann_note ''    '',
               ''    '' @ ''    '' @ ''- '' @ note_icon_part cfg_heading @ note_a ann_note]"
    by blast
  from format_annotation_lines [of ann_note cfg_empty_icon "''    ''"] n' f3
  have h3: "split_lines (fst (format_annotation cfg_empty_icon ann_note ''    '')) =
              [first_block cfg_empty_icon ann_note ''    '',
               ''    '' @ ''    '' @ ''- '' @ note_icon_part cfg_empty_icon @ note_a ann_note]"
    by blast
  have "split_lines (fst (format_annotation cfg_heading ann_ex ''    '')) = [''    - ## The quick brown fox'']"
    unfolding h1 b1 by simp
  moreover have "split_lines (fst (format_annotation cfg_heading ann_note ''    '')) =
       [''    - brown fox'', ''        - N seen'']"
    unfolding h2 b2 i a by simp
  moreover have "split_lines (fst (format_annotation cfg_empty_icon ann_note ''    '')) =
       [''    - brown fox'', ''        - seen'']"
    unfolding h3 b3 i' a by simp
  ultimately show ?thesis using n n' by blast
qed

text \<open>
  The claim as it stands fails: a text that is not collapsed keeps its line feeds, so an
  annotation without a note can take two lines; and an empty note icon is not followed by a
  space.
\<close>

theorem format_annotation_lines_counterexample:
  "note_a ann_ex = []
   \<and> split_lines (fst (format_annotation cfg_plain ann_ex [])) = [''- The  quick'', ''brown fox'']
   \<and> color_map cfg_empty_icon ''note'' = Some []
   \<and> note_a ann_note \<noteq> []
   \<and> split_lines (fst (format_annotation cfg_empty_icon ann_note [])) = [''- brown fox'', ''    - seen'']
   \<and> ''    - seen'' \<noteq> [] @ ''    '' @ ''- '' @ [] @ '' '' @ note_a ann_note"
  by (simp add: format_annotation_def cfg_empty_icon_def cfg_plain_def ann_note_def ann_ex_def
      dict_get_def heading_tokens_def Let_def)

text \<open>
  C9 (amended): for an annotation whose color is not a key of the color map, the result is
  \<open>indent\<close>, \<open>- \<close> and the text, with no marker and no space before the text, followed
  only by the chapter and date decorations that the configuration enables and by the note
  line of a non-empty note; with both decorations off and an empty note it is exactly
  \<open>indent\<close>, \<open>- \<close> and the text. In general the marker is followed by a single space
  only when it is non-empty.
\<close>

theorem format_annotation_no_marker:
  "(color_map cfg (color a) = None \<longrightarrow>
      format_annotation cfg a indent =
        (indent @ ''- '' @ text_a a @ decorations cfg a @ note_part cfg a indent, a))
   \<and> (color_map cfg (color a) = None \<and> \<not> include_chapter_in_notes cfg
        \<and> \<not> include_date_in_notes cfg \<and> note_a a = [] \<longrightarrow>
      fst (format_annotation cfg a indent) = indent @ ''- '' @ text_a a)
   \<and> fst (format_annotation cfg a indent) =
        indent @ ''- '' @ (if marker cfg a = [] then [] else marker cfg a @ '' '')
          @ emitted_text cfg a @ decorations cfg a @ note_part cfg a indent"
proof -
  have n: "color_map cfg (color a) = None \<Longrightarrow> marker cfg a = [] \<and> \<not> joins_title cfg a"
    by (simp add: marker_def dict_get_def joins_title_def heading_tokens_def)
  have "format_annotation cfg a indent =
          (fst (format_annotation cfg a indent), snd (format_annotation cfg a indent))"
    by simp
  then show ?thesis
    using n
    by (auto simp: format_annotation_blocks format_annotation_snd first_block_def
        marker_part_def emitted_text_def decorations_def note_part_def simp del: prod.collapse)
qed

theorem format_annotation_no_marker_witness:
  "color_map cfg_chapter (color ann_note) = None
   \<and> format_annotation cfg_chapter ann_note ''    '' =
       (''    - brown fox (Chapter '' @ [CHR 0x27] @ ''One'' @ [CHR 0x27] @ '')''
          @ [CHR 0x0A] @ ''        - seen'', ann_note)
   \<and> color_map cfg_plain (color ann_ex) = None
   \<and> fst (format_annotation cfg_plain ann_ex []) = ''- The  quick'' @ [CHR 0x0A] @ ''brown fox''"
proof -
  have c: "color_map cfg_chapter (color ann_note) = None"
    and c': "color_map cfg_plain (color ann_ex) = None"
    by (simp_all add: cfg_chapter_def cfg_plain_def)
  have p: "\<not> include_chapter_in_notes cfg_plain" "\<not> include_date_in_notes cfg_plain"
    "note_a ann_ex = []"
    by (simp_all add: cfg_plain_def ann_ex_def)
  have d: "decorations cfg_chapter ann_note = '' (Chapter '' @ [CHR 0x27] @ ''One'' @ [CHR 0x27] @ '')''"
    "note_part cfg_chapter ann_note ''    '' = [CHR 0x0A] @ ''        - seen''"
    by (simp_all add: decorations_def note_part_def note_line_def note_icon_part_def
        cfg_chapter_def cfg_plain_def ann_note_def)
  have t: "text_a ann_ex = ''The  quick'' @ [CHR 0x0A] @ ''brown fox''" "text_a ann_note = ''brown fox''"
    by (simp_all add: ann_ex_def ann_note_def)
  from format_annotation_no_marker [of cfg_chapter ann_note "''    ''"] c
  have h1: "format_annotation cfg_chapter ann_note ''    '' =
      (''    '' @ ''- '' @ text_a ann_note @ decorations cfg_chapter ann_note
         @ note_part cfg_chapter ann_note ''    '', ann_note)"
    by blast
  from format_annotation_no_marker [of cfg_plain ann_ex "[]"] c' p
  have h2: "fst (format_annotation cfg_plain ann_ex []) = [] @ ''- '' @ text_a ann_ex"
    by blast
  have "format_annotation cfg_chapter ann_note ''    '' =
       (''    - brown fox (Chapter '' @ [CHR 0x27] @ ''One'' @ [CHR 0x27] @ '')''
          @ [CHR 0x0A] @ ''        - seen'', ann_note)"
    unfolding h1 d t by simp
  moreover have "fst (format_annotation cfg_plain ann_ex []) = ''- The  quick'' @ [CHR 0x0A] @ ''brown fox''"
    unfolding h2 t by simp
  ultimately show ?thesis using c c' by blast
qed

text \<open>
  The claim as it stands fails when the chapter decoration is enabled: it follows the text
  on the first line.
\<close>

theorem format_annotation_no_marker_counterexample:
  "color_map cfg_chapter (color ann_note) = None
   \<and> first_line (fst (format_annotation cfg_chapter ann_note [])) =
       ''- brown fox (Chapter '' @ [CHR 0x27] @ ''One'' @ [CHR 0x27] @ '')''
   \<and> first_line (fst (format_annotation cfg_chapter ann_note [])) \<noteq> [] @ ''- '' @ text_a ann_note"
  by (simp add: format_annotation_def first_line_def cfg_chapter_def cfg_plain_def ann_note_def
      dict_get_def heading_tokens_def Let_def)

section \<open>The grouping renderer: proofs\<close>

subsection \<open>Formatting a list of annotations\<close>









subsection \<open>Sorting and grouping\<close>









subsection \<open>The loop over the groups\<close>









lemma join_single: "join sep [x] = x"
  by simp











subsection \<open>Counting the lines\<close>












subsection \<open>The rendering of grouped annotations\<close>













text \<open>
  C2 (amended): with the empty group-key list, \<open>group_and_dump\<close> on an empty annotation
  list returns an empty list of lines. With a non-empty group-key list it raises
  \<open>IndexError\<close>, since it reads \<open>annotations[0]\<close> first; \<open>generate_markdown\<close> returns
  before that call when the annotation list is empty.
\<close>

theorem group_and_dump_empty_list:
  "group_and_dump inherited cfg [] [] indent h = Inr ([], h)
   \<and> group_and_dump inherited cfg (k # ks) [] indent h = Inl IndexError
   \<and> generate_markdown inherited cfg metadata [] h = Inr (None, h)"
  by (simp add: generate_markdown_def)

text \<open>The claim as it stands fails for the group keys \<open>["date"]\<close>.\<close>

theorem group_and_dump_empty_list_counterexample:
  "group_and_dump inherited_ex cfg_plain [''date''] [] [] (heap_of []) = Inl IndexError"
  by simp

section \<open>The annotation parser: proofs\<close>

text \<open>
  C6 (amended): when the annotations of a document can be extracted, the parser returns a
  \<open>MetaData\<close> whose title, author and source are \<open>Not specified\<close> for each of the
  \<open>h1\<close>, \<open>h2\<close> and citation elements that is absent. The defaults of the dataclass
  apply only to a \<open>MetaData\<close> built without the field, and the parser passes all three.
\<close>

theorem extract_metadata_placeholders:
  "extract_all (annotation_elements sp) = Inr annotations \<Longrightarrow>
   (\<exists>metadata. extract_annotations_from_html now sp = Inr (metadata, annotations)
      \<and> (h1 sp = None \<longrightarrow> title metadata = ''Not specified'')
      \<and> (h2 sp = None \<longrightarrow> author metadata = ''Not specified'')
      \<and> (citation sp = None \<longrightarrow> source metadata = ''Not specified''))"
  by (simp add: extract_annotations_from_html_def extract_if_not_none_def Let_def)

theorem extract_metadata_placeholders_witness:
  "extract_all (annotation_elements soup_bare) = Inr []
   \<and> h1 soup_bare = None \<and> h2 soup_bare = None \<and> citation soup_bare = None
   \<and> (\<exists>metadata. extract_annotations_from_html ''2024-05-01'' soup_bare = Inr (metadata, [])
        \<and> title metadata = ''Not specified'' \<and> author metadata = ''Not specified''
        \<and> source metadata = ''Not specified'')"
proof -
  have e: "extract_all (annotation_elements soup_bare) = Inr []"
    and n: "h1 soup_bare = None" "h2 soup_bare = None" "citation soup_bare = None"
    by (simp_all add: soup_bare_def)
  from extract_metadata_placeholders [OF e, of "''2024-05-01''"] n e show ?thesis
    by blast
qed

text \<open>
  The claim as it stands fails for a document without the three elements: none of the
  fields holds the default.
\<close>

theorem extract_metadata_placeholders_counterexample:
  "h1 soup_bare = None \<and> h2 soup_bare = None \<and> citation soup_bare = None
   \<and> extract_annotations_from_html ''2024-05-01'' soup_bare =
       Inr (\<lparr>title = ''Not specified'', author = ''Not specified'',
             source = ''Not specified'', imported = ''2024-05-01''\<rparr>, [])
   \<and> ''Not specified'' \<noteq> ''Untitled'' \<and> ''Not specified'' \<noteq> ''Unknown''
   \<and> ''Not specified'' \<noteq> ''Unspecified''"
  by (simp add: extract_annotations_from_html_def extract_if_not_none_def soup_bare_def Let_def)

section \<open>Writing the documents: proofs\<close>

text \<open>
  C1: \<open>generate_markdown\<close> returns no document for an empty annotation list. What
  \<open>process_emails\<close> then does, evaluated on two messages of which the first has no
  annotation: it passes \<open>None\<close> to \<open>dump_markdown\<close>, which creates the file and fails
  in \<open>f.write\<close> with \<open>TypeError\<close>; the second message is not processed.
\<close>

theorem process_emails_empty_message:
  "generate_markdown inherited cfg metadata [] h = Inr (None, h)
   \<and> process_emails inherited cfg_plain id ''2024-05-01'' ''x'' [soup_bare, soup_one] world_empty =
       (Some TypeError,
        \<lparr>files = [''Not specified-Not specified-Notes.md'' \<mapsto> []], stdout = []\<rparr>)"
  by (simp add: generate_markdown_def process_emails_def extract_annotations_from_html_def
      extract_if_not_none_def soup_bare_def soup_one_def world_empty_def dump_markdown_def
      cfg_plain_def Let_def)

end
